theory Spec2Isabelle
  imports Main
begin

section \<open>Python values\<close>

text \<open>
  A Python \<^verbatim>\<open>str\<close> is a sequence of Unicode code points; it is modelled as the list
  of its code points, so that the program's non-ASCII literals are exact.
  \<open>ascii\<close> turns an ASCII literal into such a list.
\<close>

type_synonym pystr = "nat list"

definition ascii :: "string \<Rightarrow> pystr" where
  "ascii s = map of_char s"

text \<open>
  The values that travel through the program as tool arguments and tool results:
  \<^verbatim>\<open>None\<close>, \<^verbatim>\<open>bool\<close>, \<^verbatim>\<open>int\<close>, \<^verbatim>\<open>str\<close>, \<^verbatim>\<open>list\<close> and \<^verbatim>\<open>dict\<close> with
  \<^verbatim>\<open>str\<close> keys. A dict is the list of its items in insertion order (the order
  \<^verbatim>\<open>json.dumps\<close> and \<^verbatim>\<open>repr\<close> emit); its keys are distinct. Floats are outside
  the model.
\<close>

datatype pyval =
    PNone
  | PBool bool
  | PInt int
  | PStr pystr
  | PList "pyval list"
  | PDict "(pystr \<times> pyval) list"

text \<open>
  \<^verbatim>\<open>hasattr(x, 'model_dump')\<close> separates the objects of a pydantic model from plain
  values: \<open>Model d\<close> is an object whose \<^verbatim>\<open>model_dump()\<close> returns \<open>d\<close>.
\<close>

datatype pyobj = Plain pyval | Model pyval

text \<open>
  An exception raised by a collaborator (the chat model client, the tool-server
  session, the file system, the terminal), by its class and its \<^verbatim>\<open>str(e)\<close>. The
  program tells three kinds of class apart: those that derive from \<^verbatim>\<open>Exception\<close>,
  which \<^verbatim>\<open>except Exception\<close> catches; \<^verbatim>\<open>KeyboardInterrupt\<close> and
  \<^verbatim>\<open>asyncio.CancelledError\<close>, which only \<^verbatim>\<open>main\<close> catches; and the other
  classes under \<^verbatim>\<open>BaseException\<close>.
\<close>

datatype exc_class = SomeException | KeyboardInterrupt | CancelledError | OtherBaseException

datatype fault = Fault (fault_class: exc_class) (fault_text: pystr)

definition catchable :: "fault \<Rightarrow> bool" where
  "catchable f = (fault_class f = SomeException)"

text \<open>
  The exceptions of a run. Those the program text itself gives rise to carry their
  class; \<open>JSONDecodeError\<close> carries no message (the library's wording is not modelled).
  \<open>OutsideModel\<close> is no Python exception: it marks a run that leaves the modelled
  values (\<^verbatim>\<open>json.loads\<close> meeting a float literal), about which the model says nothing.
\<close>

datatype exn =
    JSONDecodeError
  | RuntimeError pystr
  | AttributeError pystr
  | TypeError pystr
  | IndexError pystr
  | KeyError pystr
  | Raised fault
  | OutsideModel

fun is_Exception :: "exn \<Rightarrow> bool" where
  "is_Exception (Raised f) = catchable f"
| "is_Exception OutsideModel = False"
| "is_Exception _ = True"

section \<open>The library functions the program calls\<close>

subsection \<open>\<^verbatim>\<open>str.join\<close>, decimal and hexadecimal digits\<close>

fun join :: "pystr \<Rightarrow> pystr list \<Rightarrow> pystr" where
  "join sep [] = []"
| "join sep [x] = x"
| "join sep (x # y # ys) = x @ sep @ join sep (y # ys)"

fun dec_nat :: "nat \<Rightarrow> pystr" where
  "dec_nat n = (if n < 10 then [48 + n] else dec_nat (n div 10) @ [48 + n mod 10])"

declare dec_nat.simps [simp del]

definition dec_int :: "int \<Rightarrow> pystr" where
  "dec_int i = (if i < 0 then 45 # dec_nat (nat (- i)) else dec_nat (nat i))"

definition hex_digit :: "nat \<Rightarrow> nat" where
  "hex_digit d = (if d < 10 then 48 + d else 87 + d)"

fun hex_fixed :: "nat \<Rightarrow> nat \<Rightarrow> pystr" where
  "hex_fixed 0 n = []"
| "hex_fixed (Suc k) n = hex_fixed k (n div 16) @ [hex_digit (n mod 16)]"

subsection \<open>\<^verbatim>\<open>json.dumps(v, ensure_ascii=False)\<close>\<close>

text \<open>
  With \<^verbatim>\<open>ensure_ascii=False\<close> the encoder escapes the quote, the backslash and the
  control characters below U+0020 (\<^verbatim>\<open>\b \f \n \r \t\<close> by name, the others as
  \<^verbatim>\<open>\u00xx\<close>) and copies every other code point. Items are separated by
  \<^verbatim>\<open>", "\<close>, a key from its value by \<^verbatim>\<open>": "\<close>.
\<close>

definition esc_char :: "nat \<Rightarrow> pystr" where
  "esc_char c =
     (if c = 34 then [92, 34]
      else if c = 92 then [92, 92]
      else if c = 10 then [92, 110]
      else if c = 13 then [92, 114]
      else if c = 9 then [92, 116]
      else if c = 8 then [92, 98]
      else if c = 12 then [92, 102]
      else if c < 32 then [92, 117] @ hex_fixed 4 c
      else [c])"

definition encode_str :: "pystr \<Rightarrow> pystr" where
  "encode_str s = 34 # concat (map esc_char s) @ [34]"

fun json_dumps :: "pyval \<Rightarrow> pystr" where
  "json_dumps PNone = ascii ''null''"
| "json_dumps (PBool b) = (if b then ascii ''true'' else ascii ''false'')"
| "json_dumps (PInt i) = dec_int i"
| "json_dumps (PStr s) = encode_str s"
| "json_dumps (PList vs) = 91 # join (ascii '', '') (map json_dumps vs) @ [93]"
| "json_dumps (PDict kvs) =
     123 # join (ascii '', '')
             (map (\<lambda>kv. encode_str (fst kv) @ ascii '': '' @ json_dumps (snd kv)) kvs) @ [125]"

subsection \<open>\<^verbatim>\<open>str(v)\<close> and \<^verbatim>\<open>repr(v)\<close>\<close>

text \<open>
  \<^verbatim>\<open>repr\<close> of a string picks the quote (a double quote only when the string has a
  single quote and no double quote), escapes the quote, the backslash, tab, newline
  and carriage return, writes the other control characters and DEL as \<^verbatim>\<open>\xhh\<close>,
  and copies a code point above DEL when the interpreter's Unicode table calls it
  printable. That table is not part of the repository; it is the parameter
  \<open>printable\<close>, consulted above U+007F only.
\<close>

definition repr_char :: "(nat \<Rightarrow> bool) \<Rightarrow> nat \<Rightarrow> nat \<Rightarrow> pystr" where
  "repr_char printable quote c =
     (if c = quote \<or> c = 92 then [92, c]
      else if c = 9 then [92, 116]
      else if c = 10 then [92, 110]
      else if c = 13 then [92, 114]
      else if c < 32 \<or> c = 127 then [92, 120] @ hex_fixed 2 c
      else if c < 127 then [c]
      else if printable c then [c]
      else if c \<le> 255 then [92, 120] @ hex_fixed 2 c
      else if c \<le> 65535 then [92, 117] @ hex_fixed 4 c
      else [92, 85] @ hex_fixed 8 c)"

definition repr_str :: "(nat \<Rightarrow> bool) \<Rightarrow> pystr \<Rightarrow> pystr" where
  "repr_str printable s =
     (let quote = (if 39 \<in> set s \<and> 34 \<notin> set s then 34 else 39)
      in quote # concat (map (repr_char printable quote) s) @ [quote])"

fun py_repr :: "(nat \<Rightarrow> bool) \<Rightarrow> pyval \<Rightarrow> pystr" where
  "py_repr p PNone = ascii ''None''"
| "py_repr p (PBool b) = (if b then ascii ''True'' else ascii ''False'')"
| "py_repr p (PInt i) = dec_int i"
| "py_repr p (PStr s) = repr_str p s"
| "py_repr p (PList vs) = 91 # join (ascii '', '') (map (py_repr p) vs) @ [93]"
| "py_repr p (PDict kvs) =
     123 # join (ascii '', '')
             (map (\<lambda>kv. repr_str p (fst kv) @ ascii '': '' @ py_repr p (snd kv)) kvs) @ [125]"

definition py_str :: "(nat \<Rightarrow> bool) \<Rightarrow> pyval \<Rightarrow> pystr" where
  "py_str p v = (case v of PStr s \<Rightarrow> s | _ \<Rightarrow> py_repr p v)"

subsection \<open>\<^verbatim>\<open>json.loads(s)\<close>\<close>

text \<open>
  The decoder, as the library's scanner works: whitespace is space, tab, newline and
  carriage return; a string ends at the first unescaped quote, rejects raw control
  characters, decodes the eight short escapes and \<^verbatim>\<open>\uXXXX\<close>, and joins a high
  surrogate escape with a low one that follows it; a number is
  \<^verbatim>\<open>-?(0|[1-9][0-9]*)\<close>, a float when a fraction or an exponent follows.
\<close>

definition is_ws :: "nat \<Rightarrow> bool" where
  "is_ws c = (c = 32 \<or> c = 9 \<or> c = 10 \<or> c = 13)"

definition skip_ws :: "pystr \<Rightarrow> pystr" where
  "skip_ws s = dropWhile is_ws s"

definition is_digit :: "nat \<Rightarrow> bool" where
  "is_digit c = (48 \<le> c \<and> c \<le> 57)"

definition digits_val :: "pystr \<Rightarrow> nat" where
  "digits_val ds = foldl (\<lambda>a c. 10 * a + (c - 48)) 0 ds"

definition hex_val :: "nat \<Rightarrow> nat option" where
  "hex_val c =
     (if 48 \<le> c \<and> c \<le> 57 then Some (c - 48)
      else if 97 \<le> c \<and> c \<le> 102 then Some (c - 87)
      else if 65 \<le> c \<and> c \<le> 70 then Some (c - 55)
      else None)"

definition hex4 :: "nat \<Rightarrow> nat \<Rightarrow> nat \<Rightarrow> nat \<Rightarrow> nat option" where
  "hex4 a b c d =
     (case hex_val a of None \<Rightarrow> None | Some x \<Rightarrow>
      case hex_val b of None \<Rightarrow> None | Some y \<Rightarrow>
      case hex_val c of None \<Rightarrow> None | Some z \<Rightarrow>
      case hex_val d of None \<Rightarrow> None | Some w \<Rightarrow>
        Some (((x * 16 + y) * 16 + z) * 16 + w))"

definition unescape :: "nat \<Rightarrow> nat option" where
  "unescape e =
     (if e = 34 then Some 34
      else if e = 92 then Some 92
      else if e = 47 then Some 47
      else if e = 98 then Some 8
      else if e = 102 then Some 12
      else if e = 110 then Some 10
      else if e = 114 then Some 13
      else if e = 116 then Some 9
      else None)"

definition push_char :: "nat \<Rightarrow> exn + (pystr \<times> pystr) \<Rightarrow> exn + (pystr \<times> pystr)" where
  "push_char u r = (case r of Inl e \<Rightarrow> Inl e | Inr (t, rest) \<Rightarrow> Inr (u # t, rest))"

definition join_surrogates :: "nat \<Rightarrow> nat \<Rightarrow> nat" where
  "join_surrogates hi lo = 65536 + ((hi - 55296) * 1024 + (lo - 56320))"

text \<open>\<open>scan_chars\<close> reads a string body, the opening quote already consumed.\<close>

fun scan_chars :: "pystr \<Rightarrow> exn + (pystr \<times> pystr)" where
  "scan_chars [] = Inl JSONDecodeError"
| "scan_chars (c # s) =
     (if c = 34 then Inr ([], s)
      else if c = 92 then
        (case s of
           [] \<Rightarrow> Inl JSONDecodeError
         | e # s1 \<Rightarrow>
             if e = 117 then
               (case s1 of
                  a # b # c1 # d # s2 \<Rightarrow>
                    (case hex4 a b c1 d of
                       None \<Rightarrow> Inl JSONDecodeError
                     | Some u \<Rightarrow>
                         if 55296 \<le> u \<and> u \<le> 56319 then
                           (case s2 of
                              bs # uu # a2 # b2 # c2 # d2 # s3 \<Rightarrow>
                                if bs = 92 \<and> uu = 117 then
                                  (case hex4 a2 b2 c2 d2 of
                                     None \<Rightarrow> Inl JSONDecodeError
                                   | Some u2 \<Rightarrow>
                                       if 56320 \<le> u2 \<and> u2 \<le> 57343
                                       then push_char (join_surrogates u u2) (scan_chars s3)
                                       else push_char u (scan_chars s2))
                                else push_char u (scan_chars s2)
                            | _ \<Rightarrow> push_char u (scan_chars s2))
                         else push_char u (scan_chars s2))
                | _ \<Rightarrow> Inl JSONDecodeError)
             else
               (case unescape e of
                  None \<Rightarrow> Inl JSONDecodeError
                | Some u \<Rightarrow> push_char u (scan_chars s1)))
      else if c < 32 then Inl JSONDecodeError
      else push_char c (scan_chars s))"

text \<open>
  \<open>scan_int\<close> matches \<^verbatim>\<open>-?(0|[1-9][0-9]*)\<close> at the head of the text;
  \<open>float_follows\<close> says whether the rest begins with \<^verbatim>\<open>\.[0-9]+\<close> or
  \<^verbatim>\<open>[eE][-+]?[0-9]+\<close>.
\<close>

definition scan_nat :: "pystr \<Rightarrow> (nat \<times> pystr) option" where
  "scan_nat s =
     (case s of
        [] \<Rightarrow> None
      | c # t \<Rightarrow>
          if c = 48 then Some (0, t)
          else if 49 \<le> c \<and> c \<le> 57
          then Some (digits_val (takeWhile is_digit s), dropWhile is_digit s)
          else None)"

definition scan_int :: "pystr \<Rightarrow> (int \<times> pystr) option" where
  "scan_int s =
     (case s of
        [] \<Rightarrow> None
      | c # t \<Rightarrow>
          if c = 45
          then (case scan_nat t of None \<Rightarrow> None | Some (n, r) \<Rightarrow> Some (- int n, r))
          else (case scan_nat s of None \<Rightarrow> None | Some (n, r) \<Rightarrow> Some (int n, r)))"

definition float_follows :: "pystr \<Rightarrow> bool" where
  "float_follows r =
     (case r of
        [] \<Rightarrow> False
      | c # t \<Rightarrow>
          if c = 46 then (case t of [] \<Rightarrow> False | d # _ \<Rightarrow> is_digit d)
          else if c = 101 \<or> c = 69 then
            (case t of
               [] \<Rightarrow> False
             | d # t' \<Rightarrow>
                 if d = 43 \<or> d = 45 then (case t' of [] \<Rightarrow> False | d' # _ \<Rightarrow> is_digit d')
                 else is_digit d)
          else False)"

definition starts_with :: "pystr \<Rightarrow> pystr \<Rightarrow> bool" where
  "starts_with p s = (take (length p) s = p)"

text \<open>
  \<^verbatim>\<open>dict(pairs)\<close>: a later pair with a key already present replaces the value and
  keeps the key's place.
\<close>

definition dict_set :: "('k \<times> 'v) list \<Rightarrow> 'k \<times> 'v \<Rightarrow> ('k \<times> 'v) list" where
  "dict_set d kv =
     (if fst kv \<in> fst ` set d
      then map (\<lambda>p. if fst p = fst kv then kv else p) d
      else d @ [kv])"

definition dict_of_pairs :: "('k \<times> 'v) list \<Rightarrow> ('k \<times> 'v) list" where
  "dict_of_pairs kvs = foldl dict_set [] kvs"

text \<open>
  The scanner proper. Its recursion follows the nesting of the text; the first
  argument bounds the number of nested calls, and \<open>json_loads\<close> starts it above the
  length of the text.
\<close>

fun scan_value :: "nat \<Rightarrow> pystr \<Rightarrow> exn + (pyval \<times> pystr)"
  and scan_items :: "nat \<Rightarrow> pystr \<Rightarrow> exn + (pyval list \<times> pystr)"
  and scan_pairs :: "nat \<Rightarrow> pystr \<Rightarrow> exn + ((pystr \<times> pyval) list \<times> pystr)"
where
  "scan_value 0 s = Inl OutsideModel"
| "scan_value (Suc n) s =
     (case s of
        [] \<Rightarrow> Inl JSONDecodeError
      | c # t \<Rightarrow>
          if c = 34 then
            (case scan_chars t of Inl e \<Rightarrow> Inl e | Inr (u, r) \<Rightarrow> Inr (PStr u, r))
          else if c = 123 then
            (case skip_ws t of
               [] \<Rightarrow> Inl JSONDecodeError
             | d # r \<Rightarrow>
                 if d = 125 then Inr (PDict [], r)
                 else (case scan_pairs n (d # r) of
                         Inl e \<Rightarrow> Inl e
                       | Inr (kvs, r') \<Rightarrow> Inr (PDict (dict_of_pairs kvs), r')))
          else if c = 91 then
            (case skip_ws t of
               [] \<Rightarrow> Inl JSONDecodeError
             | d # r \<Rightarrow>
                 if d = 93 then Inr (PList [], r)
                 else (case scan_items n (d # r) of
                         Inl e \<Rightarrow> Inl e
                       | Inr (vs, r') \<Rightarrow> Inr (PList vs, r')))
          else if starts_with (ascii ''null'') s then Inr (PNone, drop 4 s)
          else if starts_with (ascii ''true'') s then Inr (PBool True, drop 4 s)
          else if starts_with (ascii ''false'') s then Inr (PBool False, drop 5 s)
          else
            (case scan_int s of
               Some (i, r) \<Rightarrow> if float_follows r then Inl OutsideModel else Inr (PInt i, r)
             | None \<Rightarrow>
                 if starts_with (ascii ''NaN'') s \<or> starts_with (ascii ''Infinity'') s
                    \<or> starts_with (ascii ''-Infinity'') s
                 then Inl OutsideModel
                 else Inl JSONDecodeError))"
| "scan_items 0 s = Inl OutsideModel"
| "scan_items (Suc n) s =
     (case scan_value n s of
        Inl e \<Rightarrow> Inl e
      | Inr (v, r) \<Rightarrow>
          (case skip_ws r of
             [] \<Rightarrow> Inl JSONDecodeError
           | c # r2 \<Rightarrow>
               if c = 93 then Inr ([v], r2)
               else if c = 44 then
                 (case scan_items n (skip_ws r2) of
                    Inl e \<Rightarrow> Inl e
                  | Inr (vs, r3) \<Rightarrow> Inr (v # vs, r3))
               else Inl JSONDecodeError))"
| "scan_pairs 0 s = Inl OutsideModel"
| "scan_pairs (Suc n) s =
     (case s of
        [] \<Rightarrow> Inl JSONDecodeError
      | q # t \<Rightarrow>
          if q \<noteq> 34 then Inl JSONDecodeError
          else
            (case scan_chars t of
               Inl e \<Rightarrow> Inl e
             | Inr (k, r) \<Rightarrow>
                 (case skip_ws r of
                    [] \<Rightarrow> Inl JSONDecodeError
                  | c # r1 \<Rightarrow>
                      if c \<noteq> 58 then Inl JSONDecodeError
                      else
                        (case scan_value n (skip_ws r1) of
                           Inl e \<Rightarrow> Inl e
                         | Inr (v, r2) \<Rightarrow>
                             (case skip_ws r2 of
                                [] \<Rightarrow> Inl JSONDecodeError
                              | d # r3 \<Rightarrow>
                                  if d = 125 then Inr ([(k, v)], r3)
                                  else if d = 44 then
                                    (case scan_pairs n (skip_ws r3) of
                                       Inl e \<Rightarrow> Inl e
                                     | Inr (kvs, r4) \<Rightarrow> Inr ((k, v) # kvs, r4))
                                  else Inl JSONDecodeError)))))"

definition json_loads :: "pystr \<Rightarrow> exn + pyval" where
  "json_loads s =
     (case scan_value (Suc (length s)) (skip_ws s) of
        Inl e \<Rightarrow> Inl e
      | Inr (v, r) \<Rightarrow> if skip_ws r = [] then Inr v else Inl JSONDecodeError)"

section \<open>The conversation\<close>

text \<open>
  A tool call of the model's reply: \<^verbatim>\<open>tool_call.id\<close>, \<^verbatim>\<open>tool_call.function.name\<close>
  and \<^verbatim>\<open>tool_call.function.arguments\<close>.
\<close>

record tool_call =
  call_id :: pystr
  fname :: pystr
  arguments :: pyobj

text \<open>
  The entries of \<^verbatim>\<open>messages\<close>: \<^verbatim>\<open>{"role": "user", "content"}\<close>,
  \<^verbatim>\<open>{"role": "assistant", "content", "tool_calls"}\<close> and
  \<^verbatim>\<open>{"role": "tool", "tool_call_id", "content"}\<close>.
\<close>

datatype turn =
    UserTurn pystr
  | AssistantTurn "pystr option" "tool_call list"
  | ToolResultTurn pystr pystr

text \<open>
  \<^verbatim>\<open>choice.message\<close>: its \<^verbatim>\<open>content\<close> may be \<^verbatim>\<open>None\<close>; so may its
  \<^verbatim>\<open>tool_calls\<close>. A response is the list \<^verbatim>\<open>response.choices\<close>.
\<close>

record chat_message =
  msg_content :: "pystr option"
  tool_calls :: "tool_call list option"

type_synonym response = "chat_message list"

record tool =
  tool_name :: pystr
  tool_description :: pystr
  tool_inputSchema :: pyval

text \<open>
  The entry built for one tool:
  \<^verbatim>\<open>{"type": "function", "function": {"name", "description", "input_schema"}}\<close>.
\<close>

record tool_decl =
  decl_name :: pystr
  decl_description :: pystr
  decl_input_schema :: pyval

text \<open>
  An \<^verbatim>\<open>MCPServerConnector\<close>: whether \<^verbatim>\<open>self.session\<close>, \<^verbatim>\<open>self._sse_cm\<close> and
  \<^verbatim>\<open>self._session_cm\<close> are set, and the dict \<^verbatim>\<open>self.tools\<close>.
  \<open>new_connector\<close> is the object \<^verbatim>\<open>__init__\<close> leaves.
\<close>

record connector =
  session :: bool
  tools :: "(pystr \<times> tool) list"
  sse_cm :: bool
  session_cm :: bool

definition new_connector :: connector where
  "new_connector = \<lparr>session = False, tools = [], sse_cm = False, session_cm = False\<rparr>"

text \<open>
  An object is the list of its attributes; a missing attribute is a missing entry.
\<close>

type_synonym pyobject = "(string \<times> pyobj) list"

text \<open>
  The collaborators, each a function of the state \<open>'w\<close> of the world outside the
  program, which it may change: the chat completion endpoint, the session's
  \<^verbatim>\<open>call_tool\<close>, the terminal (\<open>read_query\<close> is \<^verbatim>\<open>input("\nQuery: ").strip()\<close>),
  the environment variable, the configuration file, and the two context managers
  the connector enters and leaves.
\<close>

record 'w env =
  chat_create :: "'w \<Rightarrow> turn list \<Rightarrow> tool_decl list \<Rightarrow> (fault + response) \<times> 'w"
  session_call_tool :: "'w \<Rightarrow> pystr \<Rightarrow> pyval \<Rightarrow> (fault + pyobject) \<times> 'w"
  printable :: "nat \<Rightarrow> bool"
  read_query :: "'w \<Rightarrow> (fault + pystr) \<times> 'w"
  api_key :: "pystr option"
  read_config :: "'w \<Rightarrow> (fault + pystr) \<times> 'w"
  sse_enter :: "'w \<Rightarrow> pyval \<Rightarrow> fault option \<times> 'w"
  session_enter :: "'w \<Rightarrow> fault option \<times> 'w"
  session_initialize :: "'w \<Rightarrow> fault option \<times> 'w"
  list_tools :: "'w \<Rightarrow> (fault + tool list) \<times> 'w"
  session_exit :: "'w \<Rightarrow> fault option \<times> 'w"
  sse_exit :: "'w \<Rightarrow> fault option \<times> 'w"

section \<open>\<^verbatim>\<open>MCPClient\<close>\<close>

text \<open>
  \<^verbatim>\<open>build_tools_for_deepseek\<close> reads \<^verbatim>\<open>self.connector.tools\<close>; with
  \<^verbatim>\<open>self.connector\<close> still \<^verbatim>\<open>None\<close> the attribute access raises.
\<close>

definition build_tools_for_deepseek :: "connector option \<Rightarrow> exn + tool_decl list" where
  "build_tools_for_deepseek conn =
     (case conn of
        None \<Rightarrow>
          Inl (AttributeError
                 ([39] @ ascii ''NoneType'' @ [39] @ ascii '' object has no attribute ''
                  @ [39] @ ascii ''tools'' @ [39]))
      | Some k \<Rightarrow>
          Inr (map (\<lambda>kv. \<lparr>decl_name = tool_name (snd kv),
                          decl_description = tool_description (snd kv),
                          decl_input_schema = tool_inputSchema (snd kv)\<rparr>) (tools k)))"

text \<open>The literal that opens the text of a failed call, with its trailing space.\<close>

definition fault_prefix :: pystr where
  "fault_prefix = [91, 24037, 20855, 35843, 29992, 24322, 24120, 93, 32]"

definition call_tool ::
  "'w env \<Rightarrow> connector option \<Rightarrow> 'w \<Rightarrow> pystr \<Rightarrow> pyval \<Rightarrow> (exn + pyobject) \<times> 'w" where
  "call_tool env conn w name args =
     (if (case conn of None \<Rightarrow> True | Some k \<Rightarrow> \<not> session k)
      then (Inl (RuntimeError (ascii ''MCP session not initialized.'')), w)
      else
        (case session_call_tool env w name args of
           (Inr r, w') \<Rightarrow> (Inr r, w')
         | (Inl f, w') \<Rightarrow>
             if catchable f
             then (Inr [(''content'', Plain (PStr (fault_prefix @ fault_text f)))], w')
             else (Inl (Raised f), w')))"

text \<open>Lines 85 to 92 of \<^verbatim>\<open>process_query\<close>: the arguments handed to the tool.\<close>

definition normalize_arguments :: "pyobj \<Rightarrow> exn + pyval" where
  "normalize_arguments a =
     (case a of
        Model d \<Rightarrow> Inr d
      | Plain v \<Rightarrow> (case v of PStr s \<Rightarrow> json_loads s | _ \<Rightarrow> Inr v))"

text \<open>Lines 99 to 105: the text stored for a tool result.\<close>

definition normalize_content :: "(nat \<Rightarrow> bool) \<Rightarrow> pyobj \<Rightarrow> pystr" where
  "normalize_content p c =
     (let content =
        (case c of
           Model d \<Rightarrow> d
         | Plain v \<Rightarrow> (case v of PStr s \<Rightarrow> v | PDict kvs \<Rightarrow> v | _ \<Rightarrow> PStr (py_str p v)))
      in case content of PStr s \<Rightarrow> s | _ \<Rightarrow> json_dumps content)"

text \<open>
  The state of one \<^verbatim>\<open>process_query\<close>: the world and the list \<^verbatim>\<open>messages\<close>. An
  exception leaves both as they are at the raise.
\<close>

record 'w pstate =
  world :: 'w
  messages :: "turn list"

text \<open>The \<^verbatim>\<open>for tool_call in message.tool_calls\<close> loop.\<close>

fun run_tool_calls ::
  "'w env \<Rightarrow> connector option \<Rightarrow> 'w pstate \<Rightarrow> tool_call list \<Rightarrow> exn option \<times> 'w pstate" where
  "run_tool_calls env conn st [] = (None, st)"
| "run_tool_calls env conn st (tc # tcs) =
     (case normalize_arguments (arguments tc) of
        Inl e \<Rightarrow> (Some e, st)
      | Inr tool_args \<Rightarrow>
          (case call_tool env conn (world st) (fname tc) tool_args of
             (Inl e, w') \<Rightarrow> (Some e, st\<lparr>world := w'\<rparr>)
           | (Inr tool_result, w') \<Rightarrow>
               (case map_of tool_result ''content'' of
                  None \<Rightarrow>
                    (Some (AttributeError
                             ([39] @ ascii ''ToolResult'' @ [39]
                              @ ascii '' object has no attribute ''
                              @ [39] @ ascii ''content'' @ [39])),
                     st\<lparr>world := w'\<rparr>)
                | Some content \<Rightarrow>
                    run_tool_calls env conn
                      (st\<lparr>world := w',
                          messages := messages st
                            @ [ToolResultTurn (call_id tc) (normalize_content (printable env) content)]\<rparr>)
                      tcs)))"

text \<open>
  The \<^verbatim>\<open>while True\<close> loop, entered with the response in hand. It has no bound: a
  model that asks for tools for ever keeps it running, and then the function has no
  value (\<open>None\<close>). \<^verbatim>\<open>final_text\<close> holds one item when it is joined.
\<close>

partial_function (option) query_loop ::
  "'w env \<Rightarrow> connector option \<Rightarrow> tool_decl list \<Rightarrow> 'w pstate \<Rightarrow> response
     \<Rightarrow> ((exn + pystr) \<times> 'w pstate) option" where
  "query_loop env conn tls st response =
     (case response of
        [] \<Rightarrow> Some (Inl (IndexError (ascii ''list index out of range'')), st)
      | message # _ \<Rightarrow>
          (case (case tool_calls message of None \<Rightarrow> [] | Some tcs \<Rightarrow> tcs) of
             [] \<Rightarrow>
               (case msg_content message of
                  None \<Rightarrow>
                    Some (Inl (TypeError
                                 (ascii ''sequence item 0: expected str instance, NoneType found'')),
                          st)
                | Some t \<Rightarrow> Some (Inr (join [10] [t]), st))
           | tc # tcs \<Rightarrow>
               (case run_tool_calls env conn
                       (st\<lparr>messages := messages st
                             @ [AssistantTurn (msg_content message) (tc # tcs)]\<rparr>)
                       (tc # tcs) of
                  (Some e, st1) \<Rightarrow> Some (Inl e, st1)
                | (None, st1) \<Rightarrow>
                    (case chat_create env (world st1) (messages st1) tls of
                       (Inl f, w') \<Rightarrow> Some (Inl (Raised f), st1\<lparr>world := w'\<rparr>)
                     | (Inr response', w') \<Rightarrow>
                         query_loop env conn tls (st1\<lparr>world := w'\<rparr>) response'))))"

declare query_loop.simps [code]

definition process_query ::
  "'w env \<Rightarrow> connector option \<Rightarrow> 'w \<Rightarrow> pystr \<Rightarrow> ((exn + pystr) \<times> 'w pstate) option" where
  "process_query env conn w query =
     (let st = \<lparr>world = w, messages = [UserTurn query]\<rparr>
      in case build_tools_for_deepseek conn of
           Inl e \<Rightarrow> Some (Inl e, st)
         | Inr tls \<Rightarrow>
             (case chat_create env w (messages st) tls of
                (Inl f, w') \<Rightarrow> Some (Inl (Raised f), st\<lparr>world := w'\<rparr>)
              | (Inr response, w') \<Rightarrow> query_loop env conn tls (st\<lparr>world := w'\<rparr>) response))"

text \<open>
  What the program shows or does to the outside, in order: an answer printed, an
  exception reported by \<^verbatim>\<open>chat_loop\<close>, the user's \<^verbatim>\<open>quit\<close>, the call of the
  session's and of the SSE connection's \<^verbatim>\<open>__aexit__\<close>, the interrupt message and
  the closing message of \<^verbatim>\<open>main\<close>.
\<close>

datatype event =
    Answer pystr
  | Reported exn
  | UserQuit
  | SessionExit
  | SseExit
  | Interrupted
  | Finished

text \<open>
  \<^verbatim>\<open>query.lower() == 'quit'\<close>. Only the ASCII capitals lower to the letters of
  \<^verbatim>\<open>quit\<close>, so lowering those decides the test.
\<close>

definition ascii_lower :: "nat \<Rightarrow> nat" where
  "ascii_lower c = (if 65 \<le> c \<and> c \<le> 90 then c + 32 else c)"

definition is_quit :: "pystr \<Rightarrow> bool" where
  "is_quit query = (map ascii_lower query = ascii ''quit'')"

text \<open>
  \<^verbatim>\<open>chat_loop\<close>: it ends on \<^verbatim>\<open>quit\<close> or on an exception that
  \<^verbatim>\<open>except Exception\<close> does not catch; every other exception, one raised by
  \<^verbatim>\<open>input\<close> included, is reported and the loop goes on.
\<close>

partial_function (option) chat_loop ::
  "'w env \<Rightarrow> connector option \<Rightarrow> 'w \<Rightarrow> event list \<Rightarrow> (exn option \<times> 'w \<times> event list) option" where
  "chat_loop env conn w log =
     (case read_query env w of
        (Inl f, w1) \<Rightarrow>
          if catchable f then chat_loop env conn w1 (log @ [Reported (Raised f)])
          else Some (Some (Raised f), w1, log)
      | (Inr query, w1) \<Rightarrow>
          if is_quit query then Some (None, w1, log @ [UserQuit])
          else
            Option.bind (process_query env conn w1 query)
              (\<lambda>r. case r of
                 (Inl e, st) \<Rightarrow>
                   if is_Exception e then chat_loop env conn (world st) (log @ [Reported e])
                   else Some (Some e, world st, log)
               | (Inr response, st) \<Rightarrow> chat_loop env conn (world st) (log @ [Answer response])))"

declare chat_loop.simps [code]

section \<open>\<^verbatim>\<open>MCPServerConnector\<close>\<close>

text \<open>\<^verbatim>\<open>x[key]\<close> for a string key.\<close>

definition subscript :: "pyval \<Rightarrow> pystr \<Rightarrow> exn + pyval" where
  "subscript x key =
     (case x of
        PDict kvs \<Rightarrow> (case map_of kvs key of None \<Rightarrow> Inl (KeyError key) | Some v \<Rightarrow> Inr v)
      | PStr s \<Rightarrow> Inl (TypeError (ascii ''string indices must be integers''))
      | PList vs \<Rightarrow> Inl (TypeError (ascii ''list indices must be integers or slices, not str''))
      | _ \<Rightarrow> Inl (TypeError (ascii ''object is not subscriptable'')))"

definition config_url :: "pyval \<Rightarrow> exn + pyval" where
  "config_url config =
     (case subscript config (ascii ''mcpServers'') of
        Inl e \<Rightarrow> Inl e
      | Inr servers \<Rightarrow>
          (case subscript servers (ascii ''amap-amap-sse'') of
             Inl e \<Rightarrow> Inl e
           | Inr server \<Rightarrow> subscript server (ascii ''url'')))"

text \<open>
  \<^verbatim>\<open>__aenter__\<close>. It returns the connector only when every step succeeded; an
  exception on the way leaves the \<^verbatim>\<open>async with\<close> statement without its body and
  without \<^verbatim>\<open>__aexit__\<close>.
\<close>

definition aenter :: "'w env \<Rightarrow> 'w \<Rightarrow> (exn + connector) \<times> 'w" where
  "aenter env w =
     (case read_config env w of
        (Inl f, w1) \<Rightarrow> (Inl (Raised f), w1)
      | (Inr txt, w1) \<Rightarrow>
          (case json_loads txt of
             Inl e \<Rightarrow> (Inl e, w1)
           | Inr config \<Rightarrow>
               (case config_url config of
                  Inl e \<Rightarrow> (Inl e, w1)
                | Inr url \<Rightarrow>
                    (case sse_enter env w1 url of
                       (Some f, w2) \<Rightarrow> (Inl (Raised f), w2)
                     | (None, w2) \<Rightarrow>
                         (case session_enter env w2 of
                            (Some f, w3) \<Rightarrow> (Inl (Raised f), w3)
                          | (None, w3) \<Rightarrow>
                              (case session_initialize env w3 of
                                 (Some f, w4) \<Rightarrow> (Inl (Raised f), w4)
                               | (None, w4) \<Rightarrow>
                                   (case list_tools env w4 of
                                      (Inl f, w5) \<Rightarrow> (Inl (Raised f), w5)
                                    | (Inr ts, w5) \<Rightarrow>
                                        (Inr \<lparr>session = True,
                                              tools = dict_of_pairs (map (\<lambda>t. (tool_name t, t)) ts),
                                              sse_cm = True,
                                              session_cm = True\<rparr>, w5))))))))"

text \<open>
  \<^verbatim>\<open>__aexit__\<close>: the session's \<^verbatim>\<open>__aexit__\<close>, then the SSE connection's, each
  when its context manager is set. An exception of the first ends the method.
\<close>

definition sse_aexit ::
  "'w env \<Rightarrow> connector \<Rightarrow> 'w \<Rightarrow> event list \<Rightarrow> exn option \<times> 'w \<times> event list" where
  "sse_aexit env k w log =
     (if sse_cm k then
        (case sse_exit env w of
           (Some f, w') \<Rightarrow> (Some (Raised f), w', log @ [SseExit])
         | (None, w') \<Rightarrow> (None, w', log @ [SseExit]))
      else (None, w, log))"

definition aexit ::
  "'w env \<Rightarrow> connector \<Rightarrow> 'w \<Rightarrow> event list \<Rightarrow> exn option \<times> 'w \<times> event list" where
  "aexit env k w log =
     (if session_cm k then
        (case session_exit env w of
           (Some f, w') \<Rightarrow> (Some (Raised f), w', log @ [SessionExit])
         | (None, w') \<Rightarrow> sse_aexit env k w' (log @ [SessionExit]))
      else sse_aexit env k w log)"

section \<open>\<^verbatim>\<open>main\<close>\<close>

text \<open>
  The \<^verbatim>\<open>async with\<close> statement around \<^verbatim>\<open>chat_loop\<close>: the body's exception, if
  any, is raised again after \<^verbatim>\<open>__aexit__\<close> (which returns nothing), unless
  \<^verbatim>\<open>__aexit__\<close> raises one of its own.
\<close>

definition with_connector ::
  "'w env \<Rightarrow> 'w \<Rightarrow> event list \<Rightarrow> (exn option \<times> 'w \<times> event list) option" where
  "with_connector env w log =
     (case aenter env w of
        (Inl e, w1) \<Rightarrow> Some (Some e, w1, log)
      | (Inr k, w1) \<Rightarrow>
          Option.bind (chat_loop env (Some k) w1 log)
            (\<lambda>r. case r of (body, w2, log2) \<Rightarrow>
               (case aexit env k w2 log2 of
                  (Some e, w3, log3) \<Rightarrow> Some (Some e, w3, log3)
                | (None, w3, log3) \<Rightarrow> Some (body, w3, log3))))"

definition interrupt :: "exn \<Rightarrow> bool" where
  "interrupt e =
     (case e of
        Raised f \<Rightarrow> fault_class f = KeyboardInterrupt \<or> fault_class f = CancelledError
      | _ \<Rightarrow> False)"

definition main :: "'w env \<Rightarrow> 'w \<Rightarrow> (exn option \<times> 'w \<times> event list) option" where
  "main env w =
     (if (case api_key env of None \<Rightarrow> True | Some key \<Rightarrow> key = [])
      then Some (Some (RuntimeError (ascii ''DEEPSEEK_API_KEY not set in environment variables.'')),
                 w, [])
      else
        Option.bind (with_connector env w [])
          (\<lambda>r. case r of (out, w1, log) \<Rightarrow>
             (case out of
                None \<Rightarrow> Some (None, w1, log @ [Finished])
              | Some e \<Rightarrow>
                  if interrupt e then Some (None, w1, log @ [Interrupted, Finished])
                  else Some (Some e, w1, log @ [Finished]))))"

section \<open>A scripted world\<close>

text \<open>
  Collaborators that follow a script, to run the program on concrete inputs. The
  world counts the chat completions requested and the lines read; the chat model
  answers its \<open>i\<close>-th request with the \<open>i\<close>-th reply of the script, the terminal gives
  the \<open>j\<close>-th query, and past the end of a script the call raises (as \<^verbatim>\<open>input\<close> does
  at the end of its input).
\<close>

definition script_at :: "(fault + 'a) list \<Rightarrow> nat \<Rightarrow> fault + 'a" where
  "script_at xs i =
     (if i < length xs then xs ! i else Inl (Fault SomeException (ascii ''end of script'')))"

definition weather_tool :: tool where
  "weather_tool =
     \<lparr>tool_name = ascii ''get_weather'',
      tool_description = ascii ''weather of a city'',
      tool_inputSchema = PDict [(ascii ''type'', PStr (ascii ''object''))]\<rparr>"

text \<open>The configuration text \<^verbatim>\<open>{"mcpServers": {"amap-amap-sse": {"url": "u"}}}\<close>.\<close>

definition config_text :: pystr where
  "config_text =
     [123, 34] @ ascii ''mcpServers'' @ [34, 58, 32, 123, 34] @ ascii ''amap-amap-sse''
     @ [34, 58, 32, 123, 34] @ ascii ''url'' @ [34, 58, 32, 34, 117, 34, 125, 125, 125]"

definition script_env ::
  "(fault + response) list \<Rightarrow> (pystr \<Rightarrow> pyval \<Rightarrow> fault + pyobject) \<Rightarrow> (fault + pystr) list
     \<Rightarrow> fault option \<Rightarrow> (nat \<times> nat) env" where
  "script_env replies tool_reply queries session_close =
     \<lparr>chat_create = (\<lambda>w msgs tls. (script_at replies (fst w), (Suc (fst w), snd w))),
      session_call_tool = (\<lambda>w name args. (tool_reply name args, w)),
      printable = (\<lambda>c. True),
      read_query = (\<lambda>w. (script_at queries (snd w), (fst w, Suc (snd w)))),
      api_key = Some (ascii ''key''),
      read_config = (\<lambda>w. (Inr config_text, w)),
      sse_enter = (\<lambda>w url. (None, w)),
      session_enter = (\<lambda>w. (None, w)),
      session_initialize = (\<lambda>w. (None, w)),
      list_tools = (\<lambda>w. (Inr [weather_tool], w)),
      session_exit = (\<lambda>w. (session_close, w)),
      sse_exit = (\<lambda>w. (None, w))\<rparr>"

definition entered :: connector where
  "entered =
     \<lparr>session = True, tools = [(ascii ''get_weather'', weather_tool)],
      sse_cm = True, session_cm = True\<rparr>"

definition asks :: "tool_call list \<Rightarrow> chat_message" where
  "asks tcs = \<lparr>msg_content = None, tool_calls = Some tcs\<rparr>"

definition says :: "pystr \<Rightarrow> chat_message" where
  "says t = \<lparr>msg_content = Some t, tool_calls = None\<rparr>"

text \<open>
  A call of \<^verbatim>\<open>get_weather\<close> with the arguments as the text
  \<^verbatim>\<open>{"city": "Beijing"}\<close>, the same call with the arguments as a dict, and a call
  whose arguments are the text \<^verbatim>\<open>{\<close>.
\<close>

definition city_text :: pystr where
  "city_text = [123, 34] @ ascii ''city'' @ [34, 58, 32, 34] @ ascii ''Beijing'' @ [34, 125]"

definition city_dict :: pyval where
  "city_dict = PDict [(ascii ''city'', PStr (ascii ''Beijing''))]"

definition weather_call :: tool_call where
  "weather_call =
     \<lparr>call_id = ascii ''call_1'', fname = ascii ''get_weather'',
      arguments = Plain (PStr city_text)\<rparr>"


text \<open>Tool servers: one that answers with a dict, one with a text, one with a list,
  and one whose call raises.\<close>

definition weather_dict :: pyval where
  "weather_dict =
     PDict [(ascii ''temperature'', PInt 21), (ascii ''condition'', PStr (ascii ''clear''))]"

definition dict_reply :: "pystr \<Rightarrow> pyval \<Rightarrow> fault + pyobject" where
  "dict_reply name args = Inr [(''content'', Plain weather_dict), (''isError'', Plain (PBool False))]"

definition text_reply :: "pystr \<Rightarrow> pyval \<Rightarrow> fault + pyobject" where
  "text_reply name args = Inr [(''content'', Plain (PStr (ascii ''clear, 21'')))]"

definition list_reply :: "pystr \<Rightarrow> pyval \<Rightarrow> fault + pyobject" where
  "list_reply name args = Inr [(''content'', Plain (PList [PBool True]))]"



definition plain_env :: "(nat \<times> nat) env" where
  "plain_env = script_env [Inr [says (ascii ''fine'')]] dict_reply [] None"



definition text_env :: "(nat \<times> nat) env" where
  "text_env =
     script_env [Inr [asks [weather_call]], Inr [says (ascii ''fine'')]] text_reply [] None"

definition rate_limited_env :: "(nat \<times> nat) env" where
  "rate_limited_env =
     script_env [Inl (Fault SomeException (ascii ''rate limit''))] dict_reply
       [Inr (ascii ''q''), Inr (ascii ''quit'')] None"

definition leaky_env :: "(nat \<times> nat) env" where
  "leaky_env =
     script_env [] dict_reply [] (Some (Fault SomeException (ascii ''close failed'')))"

definition start :: "(nat \<times> nat) pstate" where
  "start = \<lparr>world = (0, 0), messages = []\<rparr>"

section \<open>Properties of the conversation\<close>

fun is_user :: "turn \<Rightarrow> bool" where
  "is_user (UserTurn q) = True"
| "is_user _ = False"

fun is_assistant :: "turn \<Rightarrow> bool" where
  "is_assistant (AssistantTurn c tcs) = True"
| "is_assistant _ = False"



text \<open>
  A value is well formed when the keys of each of its dicts are distinct, as the keys
  of a Python dict are.
\<close>

fun wf_val :: "pyval \<Rightarrow> bool" where
  "wf_val (PList vs) = list_all wf_val vs"
| "wf_val (PDict kvs) = (distinct (map fst kvs) \<and> list_all (\<lambda>kv. wf_val (snd kv)) kvs)"
| "wf_val _ = True"

fun is_str :: "pyval \<Rightarrow> bool" where
  "is_str (PStr s) = True"
| "is_str _ = False"

section \<open>Argument faults (C1)\<close>





section \<open>Faults of the remote call (C2)\<close>




section \<open>A reply without tool calls (C3)\<close>

text \<open>
  Claim C3, as amended. When the tools can be listed and the first reply of the model
  has no tool calls and a text, \<^verbatim>\<open>process_query\<close> returns that text unchanged, and
  the conversation at the end holds the user turn alone: the final reply is not added
  to it.
\<close>

theorem no_tool_calls_returns_text:
  assumes "build_tools_for_deepseek conn = Inr tls"
    and "chat_create env w [UserTurn q] tls = (Inr (message # rest), w')"
    and "tool_calls message = None \<or> tool_calls message = Some []"
    and "msg_content message = Some t"
  shows "process_query env conn w q = Some (Inr t, \<lparr>world = w', messages = [UserTurn q]\<rparr>)"
  using assms by (auto simp: process_query_def query_loop.simps)

text \<open>
  The amended claim C3 on a model that answers \<^verbatim>\<open>fine\<close>.
\<close>

theorem no_tool_calls_returns_text_witness:
  "process_query plain_env (Some entered) (0, 0) (ascii ''hello'')
     = Some (Inr (ascii ''fine''),
             \<lparr>world = (1, 0), messages = [UserTurn (ascii ''hello'')]\<rparr>)"
proof -
  obtain tls where b: "build_tools_for_deepseek (Some entered) = Inr tls"
    by (simp add: build_tools_for_deepseek_def)
  have c: "chat_create plain_env (0, 0) [UserTurn (ascii ''hello'')] tls
             = (Inr (says (ascii ''fine'') # []), (1, 0))"
    by (simp add: plain_env_def script_env_def script_at_def)
  have d: "tool_calls (says (ascii ''fine'')) = None
             \<or> tool_calls (says (ascii ''fine'')) = Some []"
    by (simp add: says_def)
  have e: "msg_content (says (ascii ''fine'')) = Some (ascii ''fine'')"
    by (simp add: says_def)
  from no_tool_calls_returns_text [OF b c d e] show ?thesis .
qed

text \<open>
  Claim C3 as stated fails: after a reply without tool calls the conversation has no
  assistant turn.
\<close>

theorem no_tool_calls_counterexample:
  "process_query plain_env (Some entered) (0, 0) (ascii ''q'')
     = Some (Inr (ascii ''fine''), \<lparr>world = (1, 0), messages = [UserTurn (ascii ''q'')]\<rparr>)
   \<and> filter is_assistant [UserTurn (ascii ''q'')] = []"
  by code_simp

section \<open>Tool results follow the calls (C4)\<close>









section \<open>Faults of the chat model (C5)\<close>

text \<open>
  Claim C5. An exception of the chat model client that derives from
  \<^verbatim>\<open>Exception\<close> is the result of \<^verbatim>\<open>process_query\<close>, whether it is raised by the
  first request or by a request made after a round of tool calls; \<^verbatim>\<open>chat_loop\<close>
  reports it and goes on with the next query.
\<close>

theorem model_fault_reported:
  assumes "catchable f" and "build_tools_for_deepseek conn = Inr tls"
  shows "(chat_create env w [UserTurn q] tls = (Inl f, w') \<longrightarrow>
            process_query env conn w q
              = Some (Inl (Raised f), \<lparr>world = w', messages = [UserTurn q]\<rparr>))
       \<and> (tool_calls message = Some (tc # tcs)
            \<and> run_tool_calls env conn
                (st\<lparr>messages := messages st @ [AssistantTurn (msg_content message) (tc # tcs)]\<rparr>)
                (tc # tcs) = (None, st1)
            \<and> chat_create env (world st1) (messages st1) tls = (Inl f, w1) \<longrightarrow>
            query_loop env conn tls st (message # rest)
              = Some (Inl (Raised f), st1\<lparr>world := w1\<rparr>))
       \<and> (read_query env w0 = (Inr q, w) \<and> \<not> is_quit q
            \<and> process_query env conn w q = Some (Inl (Raised f), st2) \<longrightarrow>
            chat_loop env conn w0 log
              = chat_loop env conn (world st2) (log @ [Reported (Raised f)]))"
proof (intro conjI impI)
  assume "chat_create env w [UserTurn q] tls = (Inl f, w')"
  with assms(2) show "process_query env conn w q
              = Some (Inl (Raised f), \<lparr>world = w', messages = [UserTurn q]\<rparr>)"
    by (simp add: process_query_def)
next
  assume "tool_calls message = Some (tc # tcs)
            \<and> run_tool_calls env conn
                (st\<lparr>messages := messages st @ [AssistantTurn (msg_content message) (tc # tcs)]\<rparr>)
                (tc # tcs) = (None, st1)
            \<and> chat_create env (world st1) (messages st1) tls = (Inl f, w1)"
  then show "query_loop env conn tls st (message # rest)
              = Some (Inl (Raised f), st1\<lparr>world := w1\<rparr>)"
    by (subst query_loop.simps) simp
next
  assume "read_query env w0 = (Inr q, w) \<and> \<not> is_quit q
            \<and> process_query env conn w q = Some (Inl (Raised f), st2)"
  with assms(1) show "chat_loop env conn w0 log
              = chat_loop env conn (world st2) (log @ [Reported (Raised f)])"
    by (subst chat_loop.simps) simp
qed

text \<open>
  Claim C5 on a session of two lines, a query during which the model raises
  \<^verbatim>\<open>rate limit\<close> and then \<^verbatim>\<open>quit\<close>: the fault is reported, the next line is
  read, and the loop ends on \<^verbatim>\<open>quit\<close>.
\<close>

theorem model_fault_reported_witness:
  "chat_loop rate_limited_env (Some entered) (0, 0) []
     = Some (None, (1, 2),
             [Reported (Raised (Fault SomeException (ascii ''rate limit''))), UserQuit])"
proof -
  let ?f = "Fault SomeException (ascii ''rate limit'')"
  obtain tls where b: "build_tools_for_deepseek (Some entered) = Inr tls"
    by (simp add: build_tools_for_deepseek_def)
  have a: "catchable ?f" by (simp add: catchable_def)
  have c: "chat_create rate_limited_env (0, 1) [UserTurn (ascii ''q'')] tls = (Inl ?f, (1, 1))"
    by (simp add: rate_limited_env_def script_env_def script_at_def)
  have r: "read_query rate_limited_env (0, 0) = (Inr (ascii ''q''), (0, 1))"
    by (simp add: rate_limited_env_def script_env_def script_at_def)
  have q: "\<not> is_quit (ascii ''q'')" by (simp add: is_quit_def ascii_def)
  note m = model_fault_reported [OF a b, where env = rate_limited_env]
  from m c have p: "process_query rate_limited_env (Some entered) (0, 1) (ascii ''q'')
      = Some (Inl (Raised ?f), \<lparr>world = (1, 1), messages = [UserTurn (ascii ''q'')]\<rparr>)"
    by blast
  from m r q p have "chat_loop rate_limited_env (Some entered) (0, 0) []
      = chat_loop rate_limited_env (Some entered)
          (world \<lparr>world = (1 :: nat, 1 :: nat), messages = [UserTurn (ascii ''q'')]\<rparr>)
          ([] @ [Reported (Raised ?f)])"
    by blast
  also have "\<dots> = Some (None, (1, 2), [Reported (Raised ?f), UserQuit])"
    by code_simp
  finally show ?thesis .
qed

section \<open>The catalog before the connection (C8)\<close>

text \<open>
  Claim C8 on the code. Before the connection, \<^verbatim>\<open>call_tool\<close> raises the
  \<^verbatim>\<open>RuntimeError\<close> of its guard; \<^verbatim>\<open>build_tools_for_deepseek\<close> has no guard: with
  no connector it raises \<^verbatim>\<open>AttributeError\<close>, and with a connector that was never
  entered it returns an empty catalog.
\<close>

theorem catalog_before_connection:
  "build_tools_for_deepseek None
     = Inl (AttributeError
              ([39] @ ascii ''NoneType'' @ [39] @ ascii '' object has no attribute ''
               @ [39] @ ascii ''tools'' @ [39]))
   \<and> build_tools_for_deepseek (Some new_connector) = Inr []
   \<and> fst (call_tool env None w name args)
       = Inl (RuntimeError (ascii ''MCP session not initialized.''))
   \<and> fst (call_tool env (Some new_connector) w name args)
       = Inl (RuntimeError (ascii ''MCP session not initialized.''))"
  by (simp add: build_tools_for_deepseek_def call_tool_def new_connector_def)

section \<open>Leaving the connection (C9)\<close>

text \<open>
  Claim C9 on the code. When the session's \<^verbatim>\<open>__aexit__\<close> raises,
  \<^verbatim>\<open>MCPServerConnector.__aexit__\<close> ends with that exception and the SSE
  connection's \<^verbatim>\<open>__aexit__\<close> is never called.
\<close>

theorem session_close_fault_skips_sse:
  "aexit leaky_env entered (0, 0) []
     = (Some (Raised (Fault SomeException (ascii ''close failed''))), (0, 0), [SessionExit])"
  by code_simp

section \<open>String results (C10)\<close>

text \<open>
  Claim C10. A tool result whose content is already a string is stored in the
  conversation as that very string, neither serialized nor converted, and the loop
  goes on with the next call.
\<close>

theorem string_content_unchanged:
  assumes "normalize_arguments (arguments tc) = Inr args"
    and "call_tool env conn (world st) (fname tc) args = (Inr res, w')"
    and "map_of res ''content'' = Some (Plain (PStr s))"
  shows "normalize_content (printable env) (Plain (PStr s)) = s
       \<and> run_tool_calls env conn st (tc # tcs)
           = run_tool_calls env conn
               (st\<lparr>world := w', messages := messages st @ [ToolResultTurn (call_id tc) s]\<rparr>) tcs"
  using assms by (simp add: normalize_content_def)

text \<open>
  Claim C10 on a tool server that answers with the text \<^verbatim>\<open>clear, 21\<close>.
\<close>

theorem string_content_unchanged_witness:
  "run_tool_calls text_env (Some entered) start [weather_call]
     = (None, \<lparr>world = (0, 0),
               messages = [ToolResultTurn (ascii ''call_1'') (ascii ''clear, 21'')]\<rparr>)"
proof -
  have a: "normalize_arguments (arguments weather_call) = Inr city_dict"
    by code_simp
  have b: "call_tool text_env (Some entered) (world start) (fname weather_call) city_dict
             = (Inr [(''content'', Plain (PStr (ascii ''clear, 21'')))], (0, 0))"
    by (simp add: call_tool_def text_env_def script_env_def entered_def text_reply_def start_def)
  have c: "map_of [(''content'', Plain (PStr (ascii ''clear, 21'')))] ''content''
             = Some (Plain (PStr (ascii ''clear, 21'')))"
    by simp
  from string_content_unchanged [OF a b c, of "[]"]
  show ?thesis by (simp add: start_def weather_call_def)
qed

end
